theory Spec2Isabelle
  imports
    Complex_Main
    "HOL-Library.Char_ord"
    "HOL-Library.List_Lexorder"
    "HOL-Library.Product_Lexorder"
    "HOL-Library.AList"
begin

section \<open>Data model of \<open>Solver.py\<close>\<close>

text \<open>
  The three arguments of \<open>solve_production_problem\<close> are Python dictionaries keyed by
  tuples. A dictionary keeps its keys in insertion order, and \<open>d[k] = v\<close> replaces the
  value in place when \<open>k\<close> is present and appends the entry otherwise: that is an
  association list with \<open>map_of\<close> as lookup and \<open>AList.update\<close> as assignment.

  Numbers are Python floats. Demand, rates, hours and masses are read as reals (exact
  arithmetic: the rounding of IEEE doubles is not modelled). The code itself writes
  \<open>float("inf")\<close> into the capacity dictionary and \<open>np.nan\<close> into the ratio column, so
  capacities and ratios carry those two values explicitly.
\<close>

type_synonym demand_key = "string \<times> string \<times> string"
type_synonym capacity_key = "string \<times> string \<times> string"
type_synonym rate_key = "string \<times> string \<times> string \<times> string"

datatype hours = Finite real | Infinity

datatype ratio_value = NaN | Ratio hours

type_synonym ('k, 'v) dict = "('k \<times> 'v) list"

definition keys :: "('k, 'v) dict \<Rightarrow> 'k set" where
  "keys d = fst ` set d"

definition dict_get :: "('k, 'v) dict \<Rightarrow> 'k \<Rightarrow> 'v \<Rightarrow> 'v" where
  "dict_get d k dflt = (case map_of d k of None \<Rightarrow> dflt | Some v \<Rightarrow> v)"

text \<open>Comparison and division of a capacity value, as floats do them with infinity.\<close>

fun hours_le :: "real \<Rightarrow> hours \<Rightarrow> bool" where
  "hours_le x (Finite c) = (x \<le> c)"
| "hours_le x Infinity = True"

fun hours_div :: "hours \<Rightarrow> real \<Rightarrow> hours" where
  "hours_div (Finite c) y = Finite (c / y)"
| "hours_div Infinity y = Infinity"

record row =
  Period :: string
  Category :: string
  Line :: string
  Product :: string
  Hours :: real
  Kg_Produced :: real

record capacity_demand_row =
  cd_Period :: string
  cd_Category :: string
  cd_Line :: string
  Capacity_Demand :: ratio_value

section \<open>Index sets (lines 26-29)\<close>

definition Periods :: "(demand_key, real) dict \<Rightarrow> string list" where
  "Periods demand = sort (remdups (map (\<lambda>((p, c, pr), q). p) demand))"

definition Categories :: "(demand_key, real) dict \<Rightarrow> string list" where
  "Categories demand = sort (remdups (map (\<lambda>((p, c, pr), q). c) demand))"

definition Products :: "(demand_key, real) dict \<Rightarrow> string list" where
  "Products demand = sort (remdups (map (\<lambda>((p, c, pr), q). pr) demand))"

section \<open>The fictitious line (lines 31-37)\<close>

definition fictitious_line :: string where
  "fictitious_line = ''Fallback_Line''"

text \<open>\<open>Lines\<close> after line 37: the sorted real lines with the fictitious line appended.\<close>

definition Lines :: "(capacity_key, hours) dict \<Rightarrow> string list" where
  "Lines line_capacity =
     sort (remdups (map (\<lambda>((p, c, l), h). l) line_capacity)) @ [fictitious_line]"

text \<open>
  Both loops assign into the caller's dictionaries. The second one runs over a Python
  \<open>set\<close>, whose order is unspecified; the order of first occurrence is taken here, and
  no theorem below depends on it.
\<close>

definition augment_rate ::
  "(demand_key, real) dict \<Rightarrow> (rate_key, real) dict \<Rightarrow> (rate_key, real) dict" where
  "augment_rate demand production_rate =
     fold (\<lambda>((p, c, pr), q). AList.update (p, c, fictitious_line, pr) (1 / 100))
       demand production_rate"

definition demand_pairs :: "(demand_key, real) dict \<Rightarrow> (string \<times> string) list" where
  "demand_pairs demand = remdups (map (\<lambda>((p, c, pr), q). (p, c)) demand)"

definition augment_capacity ::
  "(demand_key, real) dict \<Rightarrow> (capacity_key, hours) dict \<Rightarrow> (capacity_key, hours) dict" where
  "augment_capacity demand line_capacity =
     fold (\<lambda>(p, c). AList.update (p, c, fictitious_line) Infinity)
       (demand_pairs demand) line_capacity"

section \<open>The linear program (lines 39-59)\<close>

text \<open>
  The Pyomo model: four index sets, one non-negative variable per element of their
  product, the two constraint families and the objective. A Pyomo \<open>Set\<close> holds each
  member once, so the set of lines is \<open>Lines\<close> without repetition. An assignment of
  the variables is a function \<open>X\<close>; the dictionaries are the augmented ones.
\<close>

record lp_model =
  PERIODS :: "string list"
  CATEGORIES :: "string list"
  PRODUCTS :: "string list"
  LINES :: "string list"
  lp_demand :: "(demand_key, real) dict"
  lp_capacity :: "(capacity_key, hours) dict"
  lp_rate :: "(rate_key, real) dict"

definition demand_rule :: "lp_model \<Rightarrow> (rate_key \<Rightarrow> real) \<Rightarrow> string \<Rightarrow> string \<Rightarrow> string \<Rightarrow> bool" where
  "demand_rule m X p c pr \<longleftrightarrow>
     dict_get (lp_demand m) (p, c, pr) 0
       \<le> (\<Sum>l\<leftarrow>LINES m. X (p, c, l, pr) * dict_get (lp_rate m) (p, c, l, pr) 0)"

definition capacity_rule :: "lp_model \<Rightarrow> (rate_key \<Rightarrow> real) \<Rightarrow> string \<Rightarrow> string \<Rightarrow> string \<Rightarrow> bool" where
  "capacity_rule m X p c l \<longleftrightarrow>
     hours_le (\<Sum>pr\<leftarrow>filter (\<lambda>pr. (p, c, l, pr) \<in> keys (lp_rate m)) (PRODUCTS m).
                 X (p, c, l, pr))
       (dict_get (lp_capacity m) (p, c, l) (Finite 0))"

definition Objective :: "lp_model \<Rightarrow> (rate_key \<Rightarrow> real) \<Rightarrow> real" where
  "Objective m X =
     (\<Sum>p\<leftarrow>PERIODS m. \<Sum>c\<leftarrow>CATEGORIES m. \<Sum>l\<leftarrow>LINES m. \<Sum>pr\<leftarrow>PRODUCTS m. X (p, c, l, pr))"

definition feasible :: "lp_model \<Rightarrow> (rate_key \<Rightarrow> real) \<Rightarrow> bool" where
  "feasible m X \<longleftrightarrow>
     (\<forall>p \<in> set (PERIODS m). \<forall>c \<in> set (CATEGORIES m). \<forall>l \<in> set (LINES m).
        \<forall>pr \<in> set (PRODUCTS m). 0 \<le> X (p, c, l, pr)) \<and>
     (\<forall>p \<in> set (PERIODS m). \<forall>c \<in> set (CATEGORIES m). \<forall>pr \<in> set (PRODUCTS m).
        demand_rule m X p c pr) \<and>
     (\<forall>p \<in> set (PERIODS m). \<forall>c \<in> set (CATEGORIES m). \<forall>l \<in> set (LINES m).
        capacity_rule m X p c l)"

definition optimal :: "lp_model \<Rightarrow> (rate_key \<Rightarrow> real) \<Rightarrow> bool" where
  "optimal m X \<longleftrightarrow> feasible m X \<and> (\<forall>Y. feasible m Y \<longrightarrow> Objective m X \<le> Objective m Y)"

definition build_model ::
  "(demand_key, real) dict \<Rightarrow> (capacity_key, hours) dict \<Rightarrow> (rate_key, real) dict \<Rightarrow> lp_model" where
  "build_model demand line_capacity production_rate =
     \<lparr>PERIODS = Periods demand, CATEGORIES = Categories demand, PRODUCTS = Products demand,
      LINES = remdups (Lines line_capacity),
      lp_demand = demand,
      lp_capacity = augment_capacity demand line_capacity,
      lp_rate = augment_rate demand production_rate\<rparr>"

section \<open>Reading the solution (lines 65-76)\<close>

text \<open>
  After the solve, \<open>model.X[p, c, l, pr].value\<close> is \<open>None\<close> or a float. The test
  \<open>val and val > 0\<close> keeps a value that is neither \<open>None\<close> nor zero and is positive.
\<close>

definition result_entry ::
  "(rate_key, real) dict \<Rightarrow> (rate_key \<Rightarrow> real option) \<Rightarrow> string \<Rightarrow> string \<Rightarrow> string \<Rightarrow> string \<Rightarrow> row list" where
  "result_entry production_rate val p c l pr =
     (case val (p, c, l, pr) of
        None \<Rightarrow> []
      | Some v \<Rightarrow>
          if v \<noteq> 0 \<and> v > 0
          then [\<lparr>Period = p, Category = c, Line = l, Product = pr, Hours = v,
                 Kg_Produced = v * dict_get production_rate (p, c, l, pr) 0\<rparr>]
          else [])"

definition results_df ::
  "string list \<Rightarrow> string list \<Rightarrow> string list \<Rightarrow> string list \<Rightarrow> (rate_key, real) dict \<Rightarrow>
   (rate_key \<Rightarrow> real option) \<Rightarrow> row list" where
  "results_df Ps Cs Ls Prods production_rate val =
     concat (map (\<lambda>p. concat (map (\<lambda>c. concat (map (\<lambda>l. concat (map (\<lambda>pr.
       result_entry production_rate val p c l pr) Prods)) Ls)) Cs)) Ps)"

section \<open>Redistribution of the fallback line (lines 78-114)\<close>

definition fallback_name :: string where
  "fallback_name = ''Fallback_Line''"

definition fallback_rows :: "row list \<Rightarrow> row list" where
  "fallback_rows df = filter (\<lambda>r. Line r = fallback_name) df"

definition non_fallback_rows :: "row list \<Rightarrow> row list" where
  "non_fallback_rows df = filter (\<lambda>r. Line r \<noteq> fallback_name) df"

definition eligible_lines ::
  "string list \<Rightarrow> (rate_key, real) dict \<Rightarrow> string \<Rightarrow> string \<Rightarrow> string \<Rightarrow> string list" where
  "eligible_lines Ls production_rate p c pr =
     filter (\<lambda>l. (p, c, l, pr) \<in> keys production_rate \<and> l \<noteq> fallback_name) Ls"

definition adjusted_entry ::
  "(rate_key, real) dict \<Rightarrow> string \<Rightarrow> string \<Rightarrow> string \<Rightarrow> real \<Rightarrow> string \<Rightarrow> row list" where
  "adjusted_entry production_rate p c pr equal_kgs l =
     (case map_of production_rate (p, c, l, pr) of
        None \<Rightarrow> []
      | Some rate \<Rightarrow>
          if rate \<noteq> 0 \<and> rate > 0
          then [\<lparr>Period = p, Category = c, Line = l, Product = pr,
                 Hours = equal_kgs / rate, Kg_Produced = equal_kgs\<rparr>]
          else [])"

definition redistribute_row :: "string list \<Rightarrow> (rate_key, real) dict \<Rightarrow> row \<Rightarrow> row list" where
  "redistribute_row Ls production_rate r =
     (let p = Period r; c = Category r; pr = Product r;
          total_kgs = Kg_Produced r;
          el = eligible_lines Ls production_rate p c pr
      in if el = [] then []
         else concat (map (adjusted_entry production_rate p c pr
                             (total_kgs / real (length el))) el))"

definition adjusted_rows :: "string list \<Rightarrow> (rate_key, real) dict \<Rightarrow> row list \<Rightarrow> row list" where
  "adjusted_rows Ls production_rate df =
     concat (map (redistribute_row Ls production_rate) (fallback_rows df))"

text \<open>
  \<open>groupby([...], as_index=False).sum()\<close>: one row per distinct key, in sorted key
  order, with the hours and the masses of the group summed.
\<close>

definition row_key :: "row \<Rightarrow> rate_key" where
  "row_key r = (Period r, Category r, Line r, Product r)"

definition group_row :: "row list \<Rightarrow> rate_key \<Rightarrow> row" where
  "group_row df k =
     (case k of (p, c, l, pr) \<Rightarrow>
        \<lparr>Period = p, Category = c, Line = l, Product = pr,
         Hours = (\<Sum>r\<leftarrow>filter (\<lambda>r. row_key r = k) df. Hours r),
         Kg_Produced = (\<Sum>r\<leftarrow>filter (\<lambda>r. row_key r = k) df. Kg_Produced r)\<rparr>)"

definition groupby_sum :: "row list \<Rightarrow> row list" where
  "groupby_sum df = map (group_row df) (sort (remdups (map row_key df)))"

definition results_df_adjusted :: "string list \<Rightarrow> (rate_key, real) dict \<Rightarrow> row list \<Rightarrow> row list" where
  "results_df_adjusted Ls production_rate df =
     groupby_sum (non_fallback_rows df @ adjusted_rows Ls production_rate df)"

section \<open>Capacity over demand (lines 116-137)\<close>

definition line_production :: "row list \<Rightarrow> string \<Rightarrow> string \<Rightarrow> row list" where
  "line_production adj p l = filter (\<lambda>r. Period r = p \<and> Line r = l) adj"

definition total_demand_hours ::
  "(rate_key, real) dict \<Rightarrow> row list \<Rightarrow> string \<Rightarrow> string \<Rightarrow> string \<Rightarrow> real" where
  "total_demand_hours production_rate adj p c l =
     fold (\<lambda>r acc.
             let rate = dict_get production_rate (p, c, l, Product r) 0
             in if rate > 0 then acc + Kg_Produced r / rate else acc + 0)
       (line_production adj p l) 0"

definition ratio :: "hours \<Rightarrow> real \<Rightarrow> ratio_value" where
  "ratio capacity tdh =
     (if tdh > 0 then Ratio (hours_div capacity (tdh + 1 / 1000000000)) else NaN)"

definition capacity_demand_ratio_df ::
  "(capacity_key, hours) dict \<Rightarrow> (rate_key, real) dict \<Rightarrow> row list \<Rightarrow> capacity_demand_row list" where
  "capacity_demand_ratio_df line_capacity production_rate adj =
     map (\<lambda>((p, c, l), capacity).
            \<lparr>cd_Period = p, cd_Category = c, cd_Line = l,
             Capacity_Demand = ratio capacity (total_demand_hours production_rate adj p c l)\<rparr>)
       line_capacity"

section \<open>The whole function\<close>

text \<open>
  The solver is an external library. Its call either raises, and nothing in
  \<open>solve_production_problem\<close> catches the exception, or returns, and the code then
  reads the value of every variable without looking at the returned status.
\<close>

datatype solver_outcome = Raises string | Returns "rate_key \<Rightarrow> real option"

definition solve_production_problem ::
  "(demand_key, real) dict \<Rightarrow> (capacity_key, hours) dict \<Rightarrow> (rate_key, real) dict \<Rightarrow>
   solver_outcome \<Rightarrow> string + (row list \<times> capacity_demand_row list \<times> row list)" where
  "solve_production_problem demand line_capacity production_rate outcome =
     (let Ls = Lines line_capacity;
          production_rate' = augment_rate demand production_rate;
          line_capacity' = augment_capacity demand line_capacity
      in case outcome of
           Raises e \<Rightarrow> Inl e
         | Returns val \<Rightarrow>
             (let df = results_df (Periods demand) (Categories demand) Ls (Products demand)
                         production_rate' val;
                  adj = results_df_adjusted Ls production_rate' df
              in Inr (adj, capacity_demand_ratio_df line_capacity' production_rate' adj, df)))"

section \<open>Concrete inputs\<close>

text \<open>
  The scenario of the specification: one product, one real line that is too small.
  The assignment \<open>X_a\<close> puts 10 hours on the line and 5000 on the fictitious line.
\<close>

definition demand_a :: "(demand_key, real) dict" where
  "demand_a = [((''P1'', ''Choc'', ''A''), 100)]"

definition capacity_a :: "(capacity_key, hours) dict" where
  "capacity_a = [((''P1'', ''Choc'', ''L1''), Finite 10)]"

definition rate_a :: "(rate_key, real) dict" where
  "rate_a = [((''P1'', ''Choc'', ''L1'', ''A''), 5)]"

definition X_a :: "rate_key \<Rightarrow> real" where
  "X_a k = (if k = (''P1'', ''Choc'', ''L1'', ''A'') then 10
            else if k = (''P1'', ''Choc'', ''Fallback_Line'', ''A'') then 5000 else 0)"

text \<open>A rate dictionary that already has an entry for the fictitious line.\<close>

definition rate_9 :: "(rate_key, real) dict" where
  "rate_9 = [((''P1'', ''Choc'', ''Fallback_Line'', ''A''), 5)]"

text \<open>Two categories that share the period \<open>P1\<close> and the line \<open>L1\<close>.\<close>

definition rate_x :: "(rate_key, real) dict" where
  "rate_x = [((''P1'', ''C1'', ''L1'', ''A''), 5), ((''P1'', ''C2'', ''L1'', ''A''), 5)]"

definition capacity_x :: "(capacity_key, hours) dict" where
  "capacity_x = [((''P1'', ''C1'', ''L1''), Finite 100), ((''P1'', ''C2'', ''L1''), Finite 100)]"

definition adj_x :: "row list" where
  "adj_x =
     [\<lparr>Period = ''P1'', Category = ''C1'', Line = ''L1'', Product = ''A'', Hours = 2,
        Kg_Produced = 10\<rparr>,
      \<lparr>Period = ''P1'', Category = ''C2'', Line = ''L1'', Product = ''A'', Hours = 2,
        Kg_Produced = 10\<rparr>]"

text \<open>The same scenario with no hours at all on the real line.\<close>

definition capacity_0 :: "(capacity_key, hours) dict" where
  "capacity_0 = [((''P1'', ''Choc'', ''L1''), Finite 0)]"

definition X_0 :: "rate_key \<Rightarrow> real" where
  "X_0 k = (if k = (''P1'', ''Choc'', ''Fallback_Line'', ''A'') then 10000 else 0)"

text \<open>The row of the fictitious line in the raw table of the scenario.\<close>

definition fallback_row_a :: row where
  "fallback_row_a = \<lparr>Period = ''P1'', Category = ''Choc'', Line = ''Fallback_Line'',
                      Product = ''A'', Hours = 5000, Kg_Produced = 50\<rparr>"

text \<open>
  An assignment that uses the fictitious line only: for every demand key it puts on the
  fictitious line the hours that produce the demanded mass at the rate 0.01.
\<close>

definition fallback_assignment :: "(demand_key, real) dict \<Rightarrow> rate_key \<Rightarrow> real" where
  "fallback_assignment demand k =
     (case k of (p, c, l, pr) \<Rightarrow>
        if l = fictitious_line \<and> (p, c, pr) \<in> keys demand
        then max 0 (dict_get demand (p, c, pr) 0) * 100 else 0)"

text \<open>
  A rate dictionary with an entry for the fictitious line at a key that is not a demand
  key (product \<open>B\<close>).
\<close>

definition rate_k :: "(rate_key, real) dict" where
  "rate_k = [((''P1'', ''Choc'', ''Fallback_Line'', ''B''), 7), ((''P1'', ''Choc'', ''L1'', ''A''), 5)]"

text \<open>
  The demand of the two categories, 10 kg each, and the assignment that puts 2 hours of
  each category on \<open>L1\<close>.
\<close>

definition demand_x :: "(demand_key, real) dict" where
  "demand_x = [((''P1'', ''C1'', ''A''), 10), ((''P1'', ''C2'', ''A''), 10)]"

definition X_x :: "rate_key \<Rightarrow> real" where
  "X_x k = (if k = (''P1'', ''C1'', ''L1'', ''A'') \<or> k = (''P1'', ''C2'', ''L1'', ''A'') then 2 else 0)"

section \<open>Quantities of the claims\<close>


definition hours_of :: "row list \<Rightarrow> string \<Rightarrow> string \<Rightarrow> string \<Rightarrow> real" where
  "hours_of df p c l =
     (\<Sum>r\<leftarrow>filter (\<lambda>r. Period r = p \<and> Category r = c \<and> Line r = l) df. Hours r)"

section \<open>Dictionaries and the augmentation\<close>

lemma keys_map_of: "k \<in> keys d \<longleftrightarrow> map_of d k \<noteq> None"
  by (simp add: keys_def map_of_eq_None_iff)

lemma map_of_fold_update:
  "map_of (fold (\<lambda>x. AList.update (f x) v) xs al) k =
     (if k \<in> f ` set xs then Some v else map_of al k)"
  by (induction xs arbitrary: al) (simp_all add: update_conv')

lemma set_fold_update:
  "set (fold (\<lambda>x. AList.update (f x) v) xs al) \<subseteq> set al \<union> (\<lambda>x. (f x, v)) ` set xs"
proof (induction xs arbitrary: al)
  case Nil
  then show ?case by simp
next
  case (Cons x xs)
  have "set (AList.update (f x) v al) \<subseteq> insert (f x, v) (set al)"
    by (induction al) auto
  with Cons[of "AList.update (f x) v al"] show ?case by auto
qed

lemma augment_rate_fold:
  "augment_rate demand production_rate =
     fold (\<lambda>x. AList.update (fst (fst x), fst (snd (fst x)), fictitious_line, snd (snd (fst x)))
                 (1 / 100))
       demand production_rate"
  unfolding augment_rate_def
  by (rule arg_cong[where f="\<lambda>g. fold g demand production_rate"]) (auto simp: fun_eq_iff)

lemma augment_capacity_fold:
  "augment_capacity demand line_capacity =
     fold (\<lambda>x. AList.update (fst x, snd x, fictitious_line) Infinity)
       (demand_pairs demand) line_capacity"
  unfolding augment_capacity_def
  by (rule arg_cong[where f="\<lambda>g. fold g (demand_pairs demand) line_capacity"])
     (auto simp: fun_eq_iff)

lemma map_of_augment_rate:
  "map_of (augment_rate demand production_rate) (p, c, l, pr) =
     (if l = fictitious_line \<and> (p, c, pr) \<in> keys demand then Some (1 / 100)
      else map_of production_rate (p, c, l, pr))"
  unfolding augment_rate_fold map_of_fold_update keys_def by force

lemma map_of_augment_capacity:
  "map_of (augment_capacity demand line_capacity) (p, c, l) =
     (if l = fictitious_line \<and> (\<exists>pr. (p, c, pr) \<in> keys demand) then Some Infinity
      else map_of line_capacity (p, c, l))"
  unfolding augment_capacity_fold map_of_fold_update keys_def demand_pairs_def by force

lemma set_augment_capacity:
  "(k, h) \<in> set (augment_capacity demand line_capacity) \<Longrightarrow>
     (k, h) \<in> set line_capacity \<or> h = Infinity \<and> snd (snd k) = fictitious_line"
  using set_fold_update[of "\<lambda>x. (fst x, snd x, fictitious_line)" Infinity
          "demand_pairs demand" line_capacity]
  unfolding augment_capacity_fold by auto

section \<open>The augmentation and the caller's dictionaries\<close>

text \<open>
  C9, as the code has it. After the augmentation the rate dictionary holds 0.01 at the
  fictitious line for every demand key and the capacity dictionary holds infinity at the
  fictitious line for every period and category of a demand key. Every other key, the
  keys of the fictitious line that the loops do not write included, has the value it had
  before, or none if it had none. The demand dictionary is only read: no function of the
  model returns a changed copy of it.
\<close>

theorem augmentation_frame:
  "map_of (augment_rate demand production_rate) (p, c, l, pr) =
     (if l = fictitious_line \<and> (p, c, pr) \<in> keys demand then Some (1 / 100)
      else map_of production_rate (p, c, l, pr)) \<and>
   map_of (augment_capacity demand line_capacity) (p, c, l) =
     (if l = fictitious_line \<and> (\<exists>pr'. (p, c, pr') \<in> keys demand) then Some Infinity
      else map_of line_capacity (p, c, l))"
  by (simp only: map_of_augment_rate map_of_augment_capacity)

theorem augmentation_frame_witness:
  "map_of (augment_rate demand_a rate_k) (''P1'', ''Choc'', ''Fallback_Line'', ''A'') = Some (1 / 100) \<and>
   map_of (augment_rate demand_a rate_k) (''P1'', ''Choc'', ''Fallback_Line'', ''B'') = Some 7 \<and>
   map_of (augment_rate demand_a rate_k) (''P1'', ''Choc'', ''L1'', ''A'') = Some 5 \<and>
   map_of (augment_capacity demand_a capacity_a) (''P1'', ''Choc'', ''Fallback_Line'') = Some Infinity \<and>
   map_of (augment_capacity demand_a capacity_a) (''P1'', ''Choc'', ''L1'') = Some (Finite 10)"
  using augmentation_frame[of demand_a rate_k "''P1''" "''Choc''" "''Fallback_Line''" "''A''" capacity_a]
        augmentation_frame[of demand_a rate_k "''P1''" "''Choc''" "''Fallback_Line''" "''B''" capacity_a]
        augmentation_frame[of demand_a rate_k "''P1''" "''Choc''" "''L1''" "''A''" capacity_a]
  by (simp add: keys_def demand_a_def rate_k_def capacity_a_def fictitious_line_def)

text \<open>
  An entry that the caller had stored under the name of the fictitious line at a demand
  key does not keep its value: the rate 5 becomes 0.01.
\<close>

theorem augmentation_overwrites_fallback_entry:
  "map_of rate_9 (''P1'', ''Choc'', ''Fallback_Line'', ''A'') = Some 5 \<and>
   map_of (augment_rate demand_a rate_9) (''P1'', ''Choc'', ''Fallback_Line'', ''A'')
     = Some (1 / 100)"
  by (simp add: rate_9_def augment_rate_def demand_a_def fictitious_line_def)

section \<open>Failure of the solver\<close>






section \<open>Realized demand hours\<close>

lemma fold_add_sum_list:
  "fold (\<lambda>r acc. acc + g r) xs (a::real) = a + sum_list (map g xs)"
  by (induction xs arbitrary: a) simp_all

lemma total_demand_hours_sum:
  "total_demand_hours production_rate adj p c l =
     (\<Sum>r\<leftarrow>filter (\<lambda>r. Period r = p \<and> Line r = l) adj.
        case map_of production_rate (p, c, l, Product r) of
          None \<Rightarrow> 0
        | Some rate \<Rightarrow> if 0 < rate then Kg_Produced r / rate else 0)"
proof -
  have h: "(\<lambda>r acc. let rate = dict_get production_rate (p, c, l, Product r) 0
                  in if rate > 0 then acc + Kg_Produced r / rate else acc + 0)
      = (\<lambda>r acc. acc + (case map_of production_rate (p, c, l, Product r) of
                          None \<Rightarrow> 0
                        | Some rate \<Rightarrow> if 0 < rate then Kg_Produced r / rate else 0))"
    by (auto simp: fun_eq_iff dict_get_def Let_def split: option.splits)
  show ?thesis
    unfolding total_demand_hours_def line_production_def h fold_add_sum_list by simp
qed

text \<open>
  C10. In every run that returns, the utilization table has one row per entry
  \<open>(p, c, l)\<close> of the augmented capacity dictionary, and its ratio is computed from the
  sum, over the rows of the returned aggregated table whose period is \<open>p\<close> and whose line
  is \<open>l\<close>, of mass over rate. The category of the row is not tested, the rate is looked
  up in the augmented rate dictionary under the entry's own category \<open>c\<close>, and a rate
  that is missing or not positive contributes nothing.
\<close>

theorem total_demand_hours_ignores_category:
  assumes "solve_production_problem demand line_capacity production_rate (Returns val)
             = Inr (adj, util, raw)"
  shows "util =
     map (\<lambda>((p, c, l), capacity).
            \<lparr>cd_Period = p, cd_Category = c, cd_Line = l,
             Capacity_Demand = ratio capacity
               (\<Sum>r\<leftarrow>filter (\<lambda>r. Period r = p \<and> Line r = l) adj.
                  case map_of (augment_rate demand production_rate) (p, c, l, Product r) of
                    None \<Rightarrow> 0
                  | Some rate \<Rightarrow> if 0 < rate then Kg_Produced r / rate else 0)\<rparr>)
       (augment_capacity demand line_capacity) \<and>
     adj = groupby_sum (non_fallback_rows raw
             @ adjusted_rows (Lines line_capacity) (augment_rate demand production_rate) raw)"
proof -
  from assms have adj: "adj = results_df_adjusted (Lines line_capacity)
                                (augment_rate demand production_rate) raw"
    and util: "util = capacity_demand_ratio_df (augment_capacity demand line_capacity)
                        (augment_rate demand production_rate) adj"
    by (auto simp: solve_production_problem_def Let_def)
  show ?thesis
    unfolding util
    by (simp add: capacity_demand_ratio_df_def total_demand_hours_sum)
       (simp add: adj results_df_adjusted_def)
qed

text \<open>
  Two categories on one period and line, with an optimal assignment: each category has
  a row of 2 hours on \<open>L1\<close> and a capacity of 100 hours, and both ratios are computed
  from 4 hours, since the row of the other category is counted too.
\<close>

lemma model_x:
  "build_model demand_x capacity_x rate_x =
     \<lparr>PERIODS = [''P1''], CATEGORIES = [''C1'', ''C2''], PRODUCTS = [''A''],
      LINES = [''L1'', ''Fallback_Line''],
      lp_demand = [((''P1'', ''C1'', ''A''), 10), ((''P1'', ''C2'', ''A''), 10)],
      lp_capacity = [((''P1'', ''C1'', ''L1''), Finite 100), ((''P1'', ''C2'', ''L1''), Finite 100),
                     ((''P1'', ''C1'', ''Fallback_Line''), Infinity),
                     ((''P1'', ''C2'', ''Fallback_Line''), Infinity)],
      lp_rate = [((''P1'', ''C1'', ''L1'', ''A''), 5), ((''P1'', ''C2'', ''L1'', ''A''), 5),
                 ((''P1'', ''C1'', ''Fallback_Line'', ''A''), 1 / 100),
                 ((''P1'', ''C2'', ''Fallback_Line'', ''A''), 1 / 100)]\<rparr>"
  by code_simp

lemma optimal_x: "optimal (build_model demand_x capacity_x rate_x) X_x"
  unfolding optimal_def model_x
  by (simp add: feasible_def demand_rule_def capacity_rule_def dict_get_def keys_def
        Objective_def X_x_def)

lemma solve_x:
  "solve_production_problem demand_x capacity_x rate_x (Returns (\<lambda>k. Some (X_x k))) =
     Inr (adj_x,
          [\<lparr>cd_Period = ''P1'', cd_Category = ''C1'', cd_Line = ''L1'',
             Capacity_Demand = Ratio (Finite (100 / (4 + 1 / 1000000000)))\<rparr>,
           \<lparr>cd_Period = ''P1'', cd_Category = ''C2'', cd_Line = ''L1'',
             Capacity_Demand = Ratio (Finite (100 / (4 + 1 / 1000000000)))\<rparr>,
           \<lparr>cd_Period = ''P1'', cd_Category = ''C1'', cd_Line = ''Fallback_Line'',
             Capacity_Demand = NaN\<rparr>,
           \<lparr>cd_Period = ''P1'', cd_Category = ''C2'', cd_Line = ''Fallback_Line'',
             Capacity_Demand = NaN\<rparr>],
          adj_x)"
  by code_simp

theorem total_demand_hours_ignores_category_witness:
  "optimal (build_model demand_x capacity_x rate_x) X_x \<and>
   Hours (adj_x ! 0) = 2 \<and> Category (adj_x ! 0) = ''C1'' \<and> Category (adj_x ! 1) = ''C2'' \<and>
   [\<lparr>cd_Period = ''P1'', cd_Category = ''C1'', cd_Line = ''L1'',
      Capacity_Demand = Ratio (Finite (100 / (4 + 1 / 1000000000)))\<rparr>,
    \<lparr>cd_Period = ''P1'', cd_Category = ''C2'', cd_Line = ''L1'',
      Capacity_Demand = Ratio (Finite (100 / (4 + 1 / 1000000000)))\<rparr>,
    \<lparr>cd_Period = ''P1'', cd_Category = ''C1'', cd_Line = ''Fallback_Line'',
      Capacity_Demand = NaN\<rparr>,
    \<lparr>cd_Period = ''P1'', cd_Category = ''C2'', cd_Line = ''Fallback_Line'',
      Capacity_Demand = NaN\<rparr>] =
     map (\<lambda>((p, c, l), capacity).
            \<lparr>cd_Period = p, cd_Category = c, cd_Line = l,
             Capacity_Demand = ratio capacity
               (\<Sum>r\<leftarrow>filter (\<lambda>r. Period r = p \<and> Line r = l) adj_x.
                  case map_of (augment_rate demand_x rate_x) (p, c, l, Product r) of
                    None \<Rightarrow> 0
                  | Some rate \<Rightarrow> if 0 < rate then Kg_Produced r / rate else 0)\<rparr>)
       (augment_capacity demand_x capacity_x)"
  using total_demand_hours_ignores_category[OF solve_x] optimal_x by (simp add: adj_x_def)

section \<open>The scenario of the specification\<close>

lemma model_a:
  "build_model demand_a capacity_a rate_a =
     \<lparr>PERIODS = [''P1''], CATEGORIES = [''Choc''], PRODUCTS = [''A''],
      LINES = [''L1'', ''Fallback_Line''],
      lp_demand = [((''P1'', ''Choc'', ''A''), 100)],
      lp_capacity = [((''P1'', ''Choc'', ''L1''), Finite 10),
                     ((''P1'', ''Choc'', ''Fallback_Line''), Infinity)],
      lp_rate = [((''P1'', ''Choc'', ''L1'', ''A''), 5),
                 ((''P1'', ''Choc'', ''Fallback_Line'', ''A''), 1 / 100)]\<rparr>"
  by code_simp

lemma feasible_a:
  "feasible (build_model demand_a capacity_a rate_a) Y \<longleftrightarrow>
     0 \<le> Y (''P1'', ''Choc'', ''L1'', ''A'') \<and> 0 \<le> Y (''P1'', ''Choc'', ''Fallback_Line'', ''A'') \<and>
     100 \<le> Y (''P1'', ''Choc'', ''L1'', ''A'') * 5 + Y (''P1'', ''Choc'', ''Fallback_Line'', ''A'') / 100 \<and>
     Y (''P1'', ''Choc'', ''L1'', ''A'') \<le> 10"
  unfolding model_a by (simp add: feasible_def demand_rule_def capacity_rule_def dict_get_def keys_def)

lemma objective_a:
  "Objective (build_model demand_a capacity_a rate_a) Y =
     Y (''P1'', ''Choc'', ''L1'', ''A'') + Y (''P1'', ''Choc'', ''Fallback_Line'', ''A'')"
  unfolding model_a by (simp add: Objective_def)

lemma optimal_a: "optimal (build_model demand_a capacity_a rate_a) X_a"
  unfolding optimal_def feasible_a objective_a by (simp add: X_a_def)

lemma optimal_a_unique:
  assumes "optimal (build_model demand_a capacity_a rate_a) X"
  shows "X (''P1'', ''Choc'', ''L1'', ''A'') = 10 \<and> X (''P1'', ''Choc'', ''Fallback_Line'', ''A'') = 5000"
proof -
  have "feasible (build_model demand_a capacity_a rate_a) X_a"
    using optimal_a by (simp add: optimal_def)
  with assms have "Objective (build_model demand_a capacity_a rate_a) X \<le> Objective (build_model demand_a capacity_a rate_a) X_a"
    by (simp add: optimal_def)
  then have le: "X (''P1'', ''Choc'', ''L1'', ''A'') + X (''P1'', ''Choc'', ''Fallback_Line'', ''A'') \<le> 5010"
    by (simp add: objective_a X_a_def)
  from assms have "feasible (build_model demand_a capacity_a rate_a) X" by (simp add: optimal_def)
  with le show ?thesis unfolding feasible_a by auto
qed


lemma results_df_cong:
  assumes "\<And>p c l pr. p \<in> set Ps \<Longrightarrow> c \<in> set Cs \<Longrightarrow> l \<in> set Ls \<Longrightarrow> pr \<in> set Prods \<Longrightarrow>
             val (p, c, l, pr) = val' (p, c, l, pr)"
  shows "results_df Ps Cs Ls Prods production_rate val
       = results_df Ps Cs Ls Prods production_rate val'"
  unfolding results_df_def result_entry_def
  by (intro arg_cong[where f = concat] map_cong refl) (simp add: assms)

lemma solve_cong:
  assumes "\<And>p c l pr. p \<in> set (Periods demand) \<Longrightarrow> c \<in> set (Categories demand) \<Longrightarrow>
             l \<in> set (Lines line_capacity) \<Longrightarrow> pr \<in> set (Products demand) \<Longrightarrow>
             val (p, c, l, pr) = val' (p, c, l, pr)"
  shows "solve_production_problem demand line_capacity production_rate (Returns val)
       = solve_production_problem demand line_capacity production_rate (Returns val')"
  unfolding solve_production_problem_def Let_def
  using results_df_cong[of "Periods demand" "Categories demand" "Lines line_capacity"
          "Products demand" val val', OF assms]
  by simp

lemma index_a:
  "Periods demand_a = [''P1'']" "Categories demand_a = [''Choc'']"
  "Products demand_a = [''A'']" "Lines capacity_a = [''L1'', ''Fallback_Line'']"
  by code_simp+

lemma solve_a:
  "solve_production_problem demand_a capacity_a rate_a (Returns (\<lambda>k. Some (X_a k))) =
     Inr ([\<lparr>Period = ''P1'', Category = ''Choc'', Line = ''L1'', Product = ''A'', Hours = 20,
             Kg_Produced = 100\<rparr>],
          [\<lparr>cd_Period = ''P1'', cd_Category = ''Choc'', cd_Line = ''L1'',
             Capacity_Demand = Ratio (Finite (10 / (20 + 1 / 1000000000)))\<rparr>,
           \<lparr>cd_Period = ''P1'', cd_Category = ''Choc'', cd_Line = ''Fallback_Line'',
             Capacity_Demand = NaN\<rparr>],
          [\<lparr>Period = ''P1'', Category = ''Choc'', Line = ''L1'', Product = ''A'', Hours = 10,
             Kg_Produced = 50\<rparr>,
           \<lparr>Period = ''P1'', Category = ''Choc'', Line = ''Fallback_Line'', Product = ''A'',
             Hours = 5000, Kg_Produced = 50\<rparr>])"
  by code_simp

text \<open>
  C6, as the code has it. Every optimal assignment of the scenario puts 10 hours on
  \<open>L1\<close> (50 kg) and 5000 hours on the fictitious line (the other 50 kg). \<open>L1\<close> has a
  rate entry for the product and is not the fictitious line, so it is an eligible line
  and receives the whole 50 kg: the final table has the single row of \<open>L1\<close> with 20
  hours and 100 kg, and the row of the fictitious line only remains in the raw table.
\<close>

theorem scenario_redistributes_onto_L1:
  assumes "optimal (build_model demand_a capacity_a rate_a) X"
  shows "X (''P1'', ''Choc'', ''L1'', ''A'') = 10 \<and>
         X (''P1'', ''Choc'', ''Fallback_Line'', ''A'') = 5000 \<and>
         solve_production_problem demand_a capacity_a rate_a (Returns (\<lambda>k. Some (X k))) =
     Inr ([\<lparr>Period = ''P1'', Category = ''Choc'', Line = ''L1'', Product = ''A'', Hours = 20,
             Kg_Produced = 100\<rparr>],
          [\<lparr>cd_Period = ''P1'', cd_Category = ''Choc'', cd_Line = ''L1'',
             Capacity_Demand = Ratio (Finite (10 / (20 + 1 / 1000000000)))\<rparr>,
           \<lparr>cd_Period = ''P1'', cd_Category = ''Choc'', cd_Line = ''Fallback_Line'',
             Capacity_Demand = NaN\<rparr>],
          [\<lparr>Period = ''P1'', Category = ''Choc'', Line = ''L1'', Product = ''A'', Hours = 10,
             Kg_Produced = 50\<rparr>,
           \<lparr>Period = ''P1'', Category = ''Choc'', Line = ''Fallback_Line'', Product = ''A'',
             Hours = 5000, Kg_Produced = 50\<rparr>])"
proof -
  note u = optimal_a_unique[OF assms]
  have "solve_production_problem demand_a capacity_a rate_a (Returns (\<lambda>k. Some (X k)))
      = solve_production_problem demand_a capacity_a rate_a (Returns (\<lambda>k. Some (X_a k)))"
    by (rule solve_cong) (use u in \<open>auto simp: index_a X_a_def\<close>)
  with u show ?thesis by (simp only: solve_a)
qed

theorem scenario_redistributes_onto_L1_witness:
  "optimal (build_model demand_a capacity_a rate_a) X_a \<and>
   X_a (''P1'', ''Choc'', ''L1'', ''A'') = 10 \<and>
   X_a (''P1'', ''Choc'', ''Fallback_Line'', ''A'') = 5000 \<and>
   solve_production_problem demand_a capacity_a rate_a (Returns (\<lambda>k. Some (X_a k))) =
     Inr ([\<lparr>Period = ''P1'', Category = ''Choc'', Line = ''L1'', Product = ''A'', Hours = 20,
             Kg_Produced = 100\<rparr>],
          [\<lparr>cd_Period = ''P1'', cd_Category = ''Choc'', cd_Line = ''L1'',
             Capacity_Demand = Ratio (Finite (10 / (20 + 1 / 1000000000)))\<rparr>,
           \<lparr>cd_Period = ''P1'', cd_Category = ''Choc'', cd_Line = ''Fallback_Line'',
             Capacity_Demand = NaN\<rparr>],
          [\<lparr>Period = ''P1'', Category = ''Choc'', Line = ''L1'', Product = ''A'', Hours = 10,
             Kg_Produced = 50\<rparr>,
           \<lparr>Period = ''P1'', Category = ''Choc'', Line = ''Fallback_Line'', Product = ''A'',
             Hours = 5000, Kg_Produced = 50\<rparr>])"
  using scenario_redistributes_onto_L1[OF optimal_a] optimal_a by simp

text \<open>
  The rows that the redistribution adds in the scenario: one row, 50 kg on \<open>L1\<close>. The
  mass of the fictitious line is not left unmet.
\<close>

theorem scenario_adjusted_rows:
  "optimal (build_model demand_a capacity_a rate_a) X_a \<and>
   adjusted_rows (Lines capacity_a) (augment_rate demand_a rate_a)
     (results_df (Periods demand_a) (Categories demand_a) (Lines capacity_a) (Products demand_a)
        (augment_rate demand_a rate_a) (\<lambda>k. Some (X_a k))) =
   [\<lparr>Period = ''P1'', Category = ''Choc'', Line = ''L1'', Product = ''A'', Hours = 10,
      Kg_Produced = 50\<rparr>]"
proof -
  have "adjusted_rows (Lines capacity_a) (augment_rate demand_a rate_a)
     (results_df (Periods demand_a) (Categories demand_a) (Lines capacity_a) (Products demand_a)
        (augment_rate demand_a rate_a) (\<lambda>k. Some (X_a k))) =
   [\<lparr>Period = ''P1'', Category = ''Choc'', Line = ''L1'', Product = ''A'', Hours = 10,
      Kg_Produced = 50\<rparr>]"
    by code_simp
  with optimal_a show ?thesis by simp
qed


section \<open>The fictitious line in the reported tables\<close>

lemma names_agree: "fictitious_line = fallback_name"
  by (simp add: fictitious_line_def fallback_name_def)

lemma Line_group_row: "Line (group_row df k) = fst (snd (snd k))"
  by (cases k) (simp add: group_row_def)

lemma groupby_sum_Line:
  assumes "r \<in> set (groupby_sum df)"
  shows "\<exists>r' \<in> set df. Line r = Line r'"
proof -
  from assms have "r \<in> group_row df ` (row_key ` set df)"
    by (simp add: groupby_sum_def)
  then obtain r' where "r' \<in> set df" "r = group_row df (row_key r')" by blast
  then show ?thesis by (auto simp: Line_group_row row_key_def)
qed

lemma adjusted_entry_Line: "r \<in> set (adjusted_entry production_rate p c pr kgs l) \<Longrightarrow> Line r = l"
  by (auto simp: adjusted_entry_def split: option.splits if_splits)

lemma adjusted_rows_Line:
  assumes "r \<in> set (adjusted_rows Ls production_rate df)"
  shows "Line r \<noteq> fallback_name"
proof -
  from assms obtain f where "r \<in> set (redistribute_row Ls production_rate f)"
    by (auto simp: adjusted_rows_def)
  then obtain l where "l \<in> set (eligible_lines Ls production_rate (Period f) (Category f) (Product f))"
    and "Line r = l"
    by (auto simp: redistribute_row_def Let_def dest: adjusted_entry_Line split: if_splits)
  then show ?thesis by (simp add: eligible_lines_def)
qed

lemma results_df_adjusted_Line:
  assumes "r \<in> set (results_df_adjusted Ls production_rate df)"
  shows "Line r \<noteq> fallback_name"
proof -
  from groupby_sum_Line[OF assms[unfolded results_df_adjusted_def]]
  obtain r' where "r' \<in> set (non_fallback_rows df @ adjusted_rows Ls production_rate df)"
    and "Line r = Line r'" by blast
  then show ?thesis by (auto simp: non_fallback_rows_def dest: adjusted_rows_Line)
qed

lemma total_demand_hours_no_rows:
  assumes "\<forall>r \<in> set adj. Line r \<noteq> l"
  shows "total_demand_hours production_rate adj p c l = 0"
proof -
  from assms have "line_production adj p l = []"
    by (auto simp: line_production_def filter_empty_conv)
  then show ?thesis by (simp add: total_demand_hours_def)
qed

lemma capacity_demand_row_mem:
  assumes "((p, c, l), h) \<in> set line_capacity"
  shows "\<lparr>cd_Period = p, cd_Category = c, cd_Line = l,
          Capacity_Demand = ratio h (total_demand_hours production_rate adj p c l)\<rparr>
           \<in> set (capacity_demand_ratio_df line_capacity production_rate adj)"
  using assms unfolding capacity_demand_ratio_df_def by force

lemma capacity_demand_row_cases:
  assumes "u \<in> set (capacity_demand_ratio_df line_capacity production_rate adj)"
  shows "\<exists>h. ((cd_Period u, cd_Category u, cd_Line u), h) \<in> set line_capacity \<and>
             Capacity_Demand u = ratio h (total_demand_hours production_rate adj
                                            (cd_Period u) (cd_Category u) (cd_Line u))"
  using assms unfolding capacity_demand_ratio_df_def by auto

text \<open>
  C4, as the code has it. No row of the final allocation table is on the fictitious
  line. The utilization table is built from the augmented capacity dictionary, so it
  has a row on the fictitious line for every period and category of a demand key; the
  ratio of such a row is not-a-number.
\<close>

theorem fallback_in_reports:
  assumes "solve_production_problem demand line_capacity production_rate (Returns val)
             = Inr (adj, util, raw)"
  shows "(\<forall>r \<in> set adj. Line r \<noteq> fallback_name) \<and>
         (\<forall>p c pr. (p, c, pr) \<in> keys demand \<longrightarrow>
            \<lparr>cd_Period = p, cd_Category = c, cd_Line = fallback_name, Capacity_Demand = NaN\<rparr>
              \<in> set util)"
proof -
  let ?rate = "augment_rate demand production_rate"
  let ?cap = "augment_capacity demand line_capacity"
  from assms have adj: "adj = results_df_adjusted (Lines line_capacity) ?rate raw"
    and util: "util = capacity_demand_ratio_df ?cap ?rate adj"
    by (auto simp: solve_production_problem_def Let_def)
  have nf: "\<forall>r \<in> set adj. Line r \<noteq> fallback_name"
    unfolding adj by (auto dest: results_df_adjusted_Line)
  have "\<lparr>cd_Period = p, cd_Category = c, cd_Line = fallback_name, Capacity_Demand = NaN\<rparr> \<in> set util"
    if "(p, c, pr) \<in> keys demand" for p c pr
  proof -
    from that have "map_of ?cap (p, c, fallback_name) = Some Infinity"
      by (auto simp: map_of_augment_capacity names_agree)
    then have "((p, c, fallback_name), Infinity) \<in> set ?cap" by (rule map_of_SomeD)
    from capacity_demand_row_mem[OF this, of ?rate adj]
    show ?thesis unfolding util
      by (simp add: total_demand_hours_no_rows[OF nf] ratio_def)
  qed
  with nf show ?thesis by blast
qed

theorem fallback_in_reports_witness:
  "Line \<lparr>Period = ''P1'', Category = ''Choc'', Line = ''L1'', Product = ''A'', Hours = 20,
          Kg_Produced = 100\<rparr> \<noteq> fallback_name \<and>
   \<lparr>cd_Period = ''P1'', cd_Category = ''Choc'', cd_Line = fallback_name, Capacity_Demand = NaN\<rparr>
     \<in> set [\<lparr>cd_Period = ''P1'', cd_Category = ''Choc'', cd_Line = ''L1'',
                Capacity_Demand = Ratio (Finite (10 / (20 + 1 / 1000000000)))\<rparr>,
              \<lparr>cd_Period = ''P1'', cd_Category = ''Choc'', cd_Line = ''Fallback_Line'',
                Capacity_Demand = NaN\<rparr>]"
  using fallback_in_reports[OF solve_a]
  by (simp add: keys_def demand_a_def)

text \<open>In the scenario the utilization table has a row whose line is the fictitious line.\<close>

theorem utilization_has_fallback_row:
  "\<lparr>cd_Period = ''P1'', cd_Category = ''Choc'', cd_Line = ''Fallback_Line'', Capacity_Demand = NaN\<rparr>
     \<in> set (fst (snd (projr (solve_production_problem demand_a capacity_a rate_a
                                 (Returns (\<lambda>k. Some (X_a k)))))))"
  by (simp add: solve_a)


section \<open>The domain of the ratio\<close>

lemma model_0:
  "build_model demand_a capacity_0 rate_a =
     \<lparr>PERIODS = [''P1''], CATEGORIES = [''Choc''], PRODUCTS = [''A''],
      LINES = [''L1'', ''Fallback_Line''],
      lp_demand = [((''P1'', ''Choc'', ''A''), 100)],
      lp_capacity = [((''P1'', ''Choc'', ''L1''), Finite 0),
                     ((''P1'', ''Choc'', ''Fallback_Line''), Infinity)],
      lp_rate = [((''P1'', ''Choc'', ''L1'', ''A''), 5),
                 ((''P1'', ''Choc'', ''Fallback_Line'', ''A''), 1 / 100)]\<rparr>"
  by code_simp

lemma optimal_0: "optimal (build_model demand_a capacity_0 rate_a) X_0"
  unfolding optimal_def model_0
  by (simp add: feasible_def demand_rule_def capacity_rule_def dict_get_def keys_def
        Objective_def X_0_def)

text \<open>
  With no hours on \<open>L1\<close> the whole demand goes to the fictitious line and comes back
  onto \<open>L1\<close>: its realized hours are 20 and its ratio is 0, which is finite and not
  greater than zero.
\<close>

theorem zero_capacity_ratio:
  "optimal (build_model demand_a capacity_0 rate_a) X_0 \<and>
   solve_production_problem demand_a capacity_0 rate_a (Returns (\<lambda>k. Some (X_0 k))) =
     Inr ([\<lparr>Period = ''P1'', Category = ''Choc'', Line = ''L1'', Product = ''A'', Hours = 20,
             Kg_Produced = 100\<rparr>],
          [\<lparr>cd_Period = ''P1'', cd_Category = ''Choc'', cd_Line = ''L1'',
             Capacity_Demand = Ratio (Finite 0)\<rparr>,
           \<lparr>cd_Period = ''P1'', cd_Category = ''Choc'', cd_Line = ''Fallback_Line'',
             Capacity_Demand = NaN\<rparr>],
          [\<lparr>Period = ''P1'', Category = ''Choc'', Line = ''Fallback_Line'', Product = ''A'',
             Hours = 10000, Kg_Produced = 100\<rparr>])"
proof -
  have "solve_production_problem demand_a capacity_0 rate_a (Returns (\<lambda>k. Some (X_0 k))) =
     Inr ([\<lparr>Period = ''P1'', Category = ''Choc'', Line = ''L1'', Product = ''A'', Hours = 20,
             Kg_Produced = 100\<rparr>],
          [\<lparr>cd_Period = ''P1'', cd_Category = ''Choc'', cd_Line = ''L1'',
             Capacity_Demand = Ratio (Finite 0)\<rparr>,
           \<lparr>cd_Period = ''P1'', cd_Category = ''Choc'', cd_Line = ''Fallback_Line'',
             Capacity_Demand = NaN\<rparr>],
          [\<lparr>Period = ''P1'', Category = ''Choc'', Line = ''Fallback_Line'', Product = ''A'',
             Hours = 10000, Kg_Produced = 100\<rparr>])"
    by code_simp
  with optimal_0 show ?thesis by simp
qed

text \<open>
  C8, as the code has it. A value of the ratio column is not-a-number exactly when the
  realized hours of its entry are not positive. Otherwise the entry is one of the
  caller's own capacity entries and the value is that capacity over the realized hours
  plus \<open>1e-9\<close>: for a finite capacity a finite value, not negative when the capacity
  is not negative, positive when the capacity is positive, and zero when it is zero.
\<close>

theorem utilization_ratio_domain:
  assumes "solve_production_problem demand line_capacity production_rate (Returns val)
             = Inr (adj, util, raw)"
    and "u \<in> set util"
    and "tdh = total_demand_hours (augment_rate demand production_rate) adj
                 (cd_Period u) (cd_Category u) (cd_Line u)"
  shows "(tdh \<le> 0 \<and> Capacity_Demand u = NaN) \<or>
         (0 < tdh \<and>
          (\<exists>h. ((cd_Period u, cd_Category u, cd_Line u), h) \<in> set line_capacity \<and>
               Capacity_Demand u = Ratio (hours_div h (tdh + 1 / 1000000000)) \<and>
               (\<forall>x. h = Finite x \<longrightarrow>
                  Capacity_Demand u = Ratio (Finite (x / (tdh + 1 / 1000000000))) \<and>
                  (0 \<le> x \<longrightarrow> 0 \<le> x / (tdh + 1 / 1000000000)) \<and>
                  (0 < x \<longrightarrow> 0 < x / (tdh + 1 / 1000000000)) \<and>
                  (x = 0 \<longrightarrow> x / (tdh + 1 / 1000000000) = 0))))"
proof -
  let ?rate = "augment_rate demand production_rate"
  let ?cap = "augment_capacity demand line_capacity"
  let ?k = "(cd_Period u, cd_Category u, cd_Line u)"
  from assms(1) have adj: "adj = results_df_adjusted (Lines line_capacity) ?rate raw"
    and util: "util = capacity_demand_ratio_df ?cap ?rate adj"
    by (auto simp: solve_production_problem_def Let_def)
  have nf: "\<forall>r \<in> set adj. Line r \<noteq> fallback_name"
    unfolding adj by (auto dest: results_df_adjusted_Line)
  from capacity_demand_row_cases[OF assms(2)[unfolded util]] assms(3)
  obtain h where h: "(?k, h) \<in> set ?cap" and cd: "Capacity_Demand u = ratio h tdh"
    by blast
  show ?thesis
  proof (cases "0 < tdh")
    case False
    with cd show ?thesis by (simp add: ratio_def)
  next
    case True
    have "cd_Line u \<noteq> fallback_name"
    proof
      assume "cd_Line u = fallback_name"
      with nf have "tdh = 0"
        unfolding assms(3) by (intro total_demand_hours_no_rows) simp
      with True show False by simp
    qed
    with set_augment_capacity[OF h] have mem: "(?k, h) \<in> set line_capacity"
      by (auto simp: names_agree)
    from True cd have val: "Capacity_Demand u = Ratio (hours_div h (tdh + 1 / 1000000000))"
      by (simp add: ratio_def)
    have "\<forall>x. h = Finite x \<longrightarrow>
                  Capacity_Demand u = Ratio (Finite (x / (tdh + 1 / 1000000000))) \<and>
                  (0 \<le> x \<longrightarrow> 0 \<le> x / (tdh + 1 / 1000000000)) \<and>
                  (0 < x \<longrightarrow> 0 < x / (tdh + 1 / 1000000000)) \<and>
                  (x = 0 \<longrightarrow> x / (tdh + 1 / 1000000000) = 0)"
      using True val by auto
    with True mem val show ?thesis by blast
  qed
qed

theorem utilization_ratio_domain_witness:
  "((''P1'', ''Choc'', ''L1''), Finite 10) \<in> set capacity_a \<and>
   total_demand_hours (augment_rate demand_a rate_a)
      [\<lparr>Period = ''P1'', Category = ''Choc'', Line = ''L1'', Product = ''A'', Hours = 20,
         Kg_Produced = 100\<rparr>] ''P1'' ''Choc'' ''L1'' = 20 \<and>
   (\<exists>h. ((''P1'', ''Choc'', ''L1''), h) \<in> set capacity_a \<and>
        Ratio (Finite (10 / (20 + 1 / 1000000000))) = Ratio (hours_div h (20 + 1 / 1000000000)))"
proof -
  have tdh: "(20::real) = total_demand_hours (augment_rate demand_a rate_a)
      [\<lparr>Period = ''P1'', Category = ''Choc'', Line = ''L1'', Product = ''A'', Hours = 20,
         Kg_Produced = 100\<rparr>] ''P1'' ''Choc'' ''L1''"
    by code_simp
  have mem: "((''P1'', ''Choc'', ''L1''), Finite 10) \<in> set capacity_a"
    by (simp add: capacity_a_def)
  have u: "\<lparr>cd_Period = ''P1'', cd_Category = ''Choc'', cd_Line = ''L1'',
           Capacity_Demand = Ratio (Finite (10 / (20 + 1 / 1000000000)))\<rparr>
        \<in> set [\<lparr>cd_Period = ''P1'', cd_Category = ''Choc'', cd_Line = ''L1'',
             Capacity_Demand = Ratio (Finite (10 / (20 + 1 / 1000000000)))\<rparr>,
           \<lparr>cd_Period = ''P1'', cd_Category = ''Choc'', cd_Line = ''Fallback_Line'',
             Capacity_Demand = NaN\<rparr>]"
    by simp
  from utilization_ratio_domain[OF solve_a u, of 20] tdh
  have "\<exists>h. ((''P1'', ''Choc'', ''L1''), h) \<in> set capacity_a \<and>
        Ratio (Finite (10 / (20 + 1 / 1000000000))) = Ratio (hours_div h (20 + 1 / 1000000000))"
    by auto
  with mem tdh show ?thesis by simp
qed

section \<open>Mass under redistribution\<close>

lemma dict_get_pos:
  assumes "0 < dict_get d k (0::real)"
  shows "\<exists>v. map_of d k = Some v \<and> 0 < v"
  using assms by (auto simp: dict_get_def split: option.splits)

lemma sum_list_concat_map:
  "sum_list (concat (map f xs)) = (\<Sum>x\<leftarrow>xs. sum_list (f x :: real list))"
  by (induction xs) simp_all

lemma adjusted_entry_pos:
  assumes "0 < dict_get production_rate (p, c, l, pr) 0"
  shows "map Kg_Produced (adjusted_entry production_rate p c pr kgs l) = [kgs]"
  using dict_get_pos[OF assms] by (auto simp: adjusted_entry_def)

lemma redistribute_row_mass:
  assumes "eligible_lines Ls production_rate (Period r) (Category r) (Product r) \<noteq> []"
    and "\<forall>l \<in> set (eligible_lines Ls production_rate (Period r) (Category r) (Product r)).
           0 < dict_get production_rate (Period r, Category r, l, Product r) 0"
  shows "(\<Sum>x\<leftarrow>redistribute_row Ls production_rate r. Kg_Produced x) = Kg_Produced r"
proof -
  let ?el = "eligible_lines Ls production_rate (Period r) (Category r) (Product r)"
  let ?share = "Kg_Produced r / real (length ?el)"
  have "map Kg_Produced (redistribute_row Ls production_rate r)
      = concat (map (\<lambda>l. map Kg_Produced
          (adjusted_entry production_rate (Period r) (Category r) (Product r) ?share l)) ?el)"
    using assms(1) by (simp add: redistribute_row_def Let_def map_concat comp_def)
  also have "\<dots> = concat (map (\<lambda>l. [?share]) ?el)"
    using assms(2) by (intro arg_cong[where f = concat] map_cong refl) (simp add: adjusted_entry_pos)
  finally have "(\<Sum>x\<leftarrow>redistribute_row Ls production_rate r. Kg_Produced x)
      = (\<Sum>l\<leftarrow>?el. ?share)"
    by (simp add: sum_list_concat_map comp_def)
  also have "\<dots> = real (length ?el) * ?share"
    by (simp add: sum_list_triv)
  also have "\<dots> = Kg_Produced r"
    using assms(1) by simp
  finally show ?thesis .
qed

text \<open>
  C3, as the code has it. The eligible lines of a row of the fictitious line are the
  lines of \<open>Lines\<close> (the lines that have a capacity entry in some period and category)
  that have a rate entry for the row's key and are not the fictitious line. When there
  is at least one and each has a positive rate, the masses of the rows that the
  redistribution adds for this row sum to the mass of the row.
\<close>

theorem redistribution_conserves_mass:
  assumes "eligible_lines Ls production_rate (Period r) (Category r) (Product r) \<noteq> []"
    and "\<forall>l \<in> set (eligible_lines Ls production_rate (Period r) (Category r) (Product r)).
           0 < dict_get production_rate (Period r, Category r, l, Product r) 0"
  shows "(\<Sum>x\<leftarrow>redistribute_row Ls production_rate r. Kg_Produced x) = Kg_Produced r"
  using assms by (rule redistribute_row_mass)

theorem redistribution_conserves_mass_witness:
  "eligible_lines (Lines capacity_a) (augment_rate demand_a rate_a) ''P1'' ''Choc'' ''A'' = [''L1''] \<and>
   dict_get (augment_rate demand_a rate_a) (''P1'', ''Choc'', ''L1'', ''A'') 0 = 5 \<and>
   (\<Sum>x\<leftarrow>redistribute_row (Lines capacity_a) (augment_rate demand_a rate_a) fallback_row_a.
      Kg_Produced x) = 50"
proof -
  have el: "eligible_lines (Lines capacity_a) (augment_rate demand_a rate_a)
              (Period fallback_row_a) (Category fallback_row_a) (Product fallback_row_a) = [''L1'']"
    by code_simp
  have rt: "dict_get (augment_rate demand_a rate_a)
              (Period fallback_row_a, Category fallback_row_a, ''L1'', Product fallback_row_a) 0 = 5"
    by code_simp
  have "(\<Sum>x\<leftarrow>redistribute_row (Lines capacity_a) (augment_rate demand_a rate_a) fallback_row_a.
      Kg_Produced x) = Kg_Produced fallback_row_a"
    by (rule redistribution_conserves_mass) (simp_all add: el rt)
  with el rt show ?thesis by (simp add: fallback_row_a_def)
qed

text \<open>
  A line with a rate entry for the key and no capacity entry at all is not in \<open>Lines\<close>.
  The fictitious line takes the whole demand, 100 kg, and the redistribution adds no row:
  the mass added to real lines is 0.
\<close>

lemma model_no_capacity:
  "build_model demand_a [] rate_a =
     \<lparr>PERIODS = [''P1''], CATEGORIES = [''Choc''], PRODUCTS = [''A''],
      LINES = [''Fallback_Line''],
      lp_demand = [((''P1'', ''Choc'', ''A''), 100)],
      lp_capacity = [((''P1'', ''Choc'', ''Fallback_Line''), Infinity)],
      lp_rate = [((''P1'', ''Choc'', ''L1'', ''A''), 5),
                 ((''P1'', ''Choc'', ''Fallback_Line'', ''A''), 1 / 100)]\<rparr>"
  by code_simp

lemma optimal_no_capacity: "optimal (build_model demand_a [] rate_a) X_0"
  unfolding optimal_def model_no_capacity
  by (simp add: feasible_def demand_rule_def capacity_rule_def dict_get_def keys_def
        Objective_def X_0_def)

theorem rate_entry_without_capacity_entry:
  "optimal (build_model demand_a [] rate_a) X_0 \<and>
   map_of (augment_rate demand_a rate_a) (''P1'', ''Choc'', ''L1'', ''A'') = Some 5 \<and>
   fallback_rows (results_df (Periods demand_a) (Categories demand_a) (Lines []) (Products demand_a)
        (augment_rate demand_a rate_a) (\<lambda>k. Some (X_0 k))) =
     [\<lparr>Period = ''P1'', Category = ''Choc'', Line = ''Fallback_Line'', Product = ''A'',
        Hours = 10000, Kg_Produced = 100\<rparr>] \<and>
   adjusted_rows (Lines []) (augment_rate demand_a rate_a)
     (results_df (Periods demand_a) (Categories demand_a) (Lines []) (Products demand_a)
        (augment_rate demand_a rate_a) (\<lambda>k. Some (X_0 k))) = []"
proof -
  have "map_of (augment_rate demand_a rate_a) (''P1'', ''Choc'', ''L1'', ''A'') = Some 5"
    by code_simp
  moreover have "fallback_rows (results_df (Periods demand_a) (Categories demand_a) (Lines [])
        (Products demand_a) (augment_rate demand_a rate_a) (\<lambda>k. Some (X_0 k))) =
     [\<lparr>Period = ''P1'', Category = ''Choc'', Line = ''Fallback_Line'', Product = ''A'',
        Hours = 10000, Kg_Produced = 100\<rparr>]"
    by code_simp
  moreover have "adjusted_rows (Lines []) (augment_rate demand_a rate_a)
     (results_df (Periods demand_a) (Categories demand_a) (Lines []) (Products demand_a)
        (augment_rate demand_a rate_a) (\<lambda>k. Some (X_0 k))) = []"
    by code_simp
  ultimately show ?thesis using optimal_no_capacity by simp
qed

section \<open>Feasibility of the augmented model\<close>

lemma sum_list_only:
  assumes "distinct xs" "a \<in> set xs" "\<And>x. x \<in> set xs \<Longrightarrow> x \<noteq> a \<Longrightarrow> f x = (0::real)"
  shows "sum_list (map f xs) = f a"
proof -
  have "sum_list (map f xs) = sum f (set xs)"
    using assms(1) by (simp add: sum_list_distinct_conv_sum_set)
  also have "\<dots> = sum (\<lambda>x. if x = a then f a else 0) (set xs)"
    by (rule sum.cong) (auto simp: assms(3))
  also have "\<dots> = f a"
    using assms(2) by (simp add: sum.delta')
  finally show ?thesis .
qed

lemma dict_get_absent: "k \<notin> keys d \<Longrightarrow> dict_get d k dflt = dflt"
  by (simp add: dict_get_def keys_map_of)

lemma dict_get_hours_le:
  assumes "\<forall>(k, h) \<in> set line_capacity. hours_le 0 h"
  shows "hours_le 0 (dict_get line_capacity k (Finite 0))"
proof (cases "map_of line_capacity k")
  case None
  then show ?thesis by (simp add: dict_get_def)
next
  case (Some h)
  then have "(k, h) \<in> set line_capacity" by (rule map_of_SomeD)
  with assms Some show ?thesis by (auto simp: dict_get_def)
qed

lemma fallback_assignment_demand_rule:
  "demand_rule (build_model demand line_capacity production_rate) (fallback_assignment demand) p c pr"
proof -
  let ?m = "build_model demand line_capacity production_rate"
  let ?f = "\<lambda>l. fallback_assignment demand (p, c, l, pr) * dict_get (lp_rate ?m) (p, c, l, pr) 0"
  have "sum_list (map ?f (LINES ?m)) = ?f fictitious_line"
    by (rule sum_list_only)
       (simp_all add: build_model_def Lines_def fallback_assignment_def)
  also have "\<dots> = (if (p, c, pr) \<in> keys demand then max 0 (dict_get demand (p, c, pr) 0) else 0)"
    by (simp add: build_model_def fallback_assignment_def dict_get_def map_of_augment_rate)
  finally show ?thesis
    unfolding demand_rule_def by (simp add: build_model_def dict_get_absent)
qed

lemma fallback_assignment_capacity_rule:
  assumes "\<forall>(k, h) \<in> set line_capacity. hours_le 0 h"
  shows "capacity_rule (build_model demand line_capacity production_rate)
           (fallback_assignment demand) p c l"
proof (cases "l = fictitious_line \<and> (\<exists>pr. (p, c, pr) \<in> keys demand)")
  case True
  then show ?thesis
    by (simp add: capacity_rule_def build_model_def dict_get_def map_of_augment_capacity)
next
  case False
  then have zero: "fallback_assignment demand (p, c, l, pr) = 0" for pr
    by (auto simp: fallback_assignment_def)
  from False have "dict_get (augment_capacity demand line_capacity) (p, c, l) (Finite 0)
      = dict_get line_capacity (p, c, l) (Finite 0)"
    by (auto simp: dict_get_def map_of_augment_capacity)
  then show ?thesis
    using dict_get_hours_le[OF assms, of "(p, c, l)"]
    by (simp add: capacity_rule_def build_model_def zero)
qed

text \<open>
  C5. When no stated capacity is negative, the constraint system built after the
  augmentation has a feasible assignment, whatever the demand and the rates are: the
  fictitious line alone covers every demand, and its capacity is infinite wherever it
  is used. In particular this holds when demand, capacity and rates are all finite and
  not negative.
\<close>

theorem augmented_model_feasible:
  assumes "\<forall>(k, h) \<in> set line_capacity. hours_le 0 h"
  shows "\<exists>X. feasible (build_model demand line_capacity production_rate) X"
proof
  show "feasible (build_model demand line_capacity production_rate) (fallback_assignment demand)"
    unfolding feasible_def
    using fallback_assignment_demand_rule fallback_assignment_capacity_rule[OF assms]
    by (simp add: fallback_assignment_def)
qed

theorem augmented_model_feasible_witness:
  "\<exists>X. feasible (build_model demand_a capacity_a rate_a) X"
  by (rule augmented_model_feasible) (simp add: capacity_a_def)

section \<open>Sums over the tables\<close>

lemma sum_list_select:
  assumes "distinct xs" "\<And>x. x \<in> set xs \<Longrightarrow> x \<noteq> a \<Longrightarrow> f x = (0::real)"
  shows "sum_list (map f xs) = (if a \<in> set xs then f a else 0)"
proof -
  have "sum_list (map f xs) = sum f (set xs)"
    using assms(1) by (simp add: sum_list_distinct_conv_sum_set)
  also have "\<dots> = sum (\<lambda>x. if x = a then f a else 0) (set xs)"
    by (rule sum.cong) (auto simp: assms(2))
  also have "\<dots> = (if a \<in> set xs then f a else 0)"
    by (simp add: sum.delta')
  finally show ?thesis .
qed

lemma sum_groups:
  assumes "distinct ks"
  shows "(\<Sum>k\<leftarrow>ks. \<Sum>r\<leftarrow>filter (\<lambda>r. key r = k) df. f r)
       = (\<Sum>r\<leftarrow>filter (\<lambda>r. key r \<in> set ks) df. (f r :: real))"
proof (induction df)
  case Nil
  then show ?case by simp
next
  case (Cons r df)
  have "(\<Sum>k\<leftarrow>ks. \<Sum>x\<leftarrow>filter (\<lambda>x. key x = k) (r # df). f x)
      = (\<Sum>k\<leftarrow>ks. (if k = key r then f r else 0) + (\<Sum>x\<leftarrow>filter (\<lambda>x. key x = k) df. f x))"
    by (intro arg_cong[where f = sum_list] map_cong refl) auto
  also have "\<dots> = (\<Sum>k\<leftarrow>ks. if k = key r then f r else 0)
                  + (\<Sum>k\<leftarrow>ks. \<Sum>x\<leftarrow>filter (\<lambda>x. key x = k) df. f x)"
    by (simp add: sum_list_addf)
  also have "(\<Sum>k\<leftarrow>ks. if k = key r then f r else 0) = (if key r \<in> set ks then f r else 0)"
    using sum_list_select[OF assms, of "key r" "\<lambda>k. if k = key r then f r else 0"] by simp
  finally show ?case using Cons.IH by simp
qed

lemma row_key_group_row: "row_key (group_row df k) = k"
  by (cases k) (simp add: group_row_def row_key_def)

lemma groupby_sum_select:
  "(\<Sum>r\<leftarrow>filter (\<lambda>r. Q (row_key r)) (groupby_sum df). Kg_Produced r)
     = (\<Sum>r\<leftarrow>filter (\<lambda>r. Q (row_key r)) df. Kg_Produced r) \<and>
   (\<Sum>r\<leftarrow>filter (\<lambda>r. Q (row_key r)) (groupby_sum df). Hours r)
     = (\<Sum>r\<leftarrow>filter (\<lambda>r. Q (row_key r)) df. Hours r)"
proof -
  let ?ks = "sort (remdups (map row_key df))"
  let ?qs = "filter Q ?ks"
  have d: "distinct ?qs" by simp
  have sel: "filter (\<lambda>r. Q (row_key r)) (groupby_sum df) = map (group_row df) ?qs"
    by (simp add: groupby_sum_def filter_map comp_def row_key_group_row)
  have mem: "filter (\<lambda>r. row_key r \<in> row_key ` set df \<and> Q (row_key r)) df
           = filter (\<lambda>r. Q (row_key r)) df"
    by (rule filter_cong) auto
  have kg: "Kg_Produced (group_row df k) = (\<Sum>r\<leftarrow>filter (\<lambda>r. row_key r = k) df. Kg_Produced r)" for k
    by (cases k) (simp add: group_row_def)
  have hr: "Hours (group_row df k) = (\<Sum>r\<leftarrow>filter (\<lambda>r. row_key r = k) df. Hours r)" for k
    by (cases k) (simp add: group_row_def)
  show ?thesis
    using sum_groups[OF d, where key = row_key and df = df and f = Kg_Produced]
      sum_groups[OF d, where key = row_key and df = df and f = Hours]
    by (simp add: sel mem comp_def kg hr)
qed


lemma hours_of_groupby_sum: "hours_of (groupby_sum df) p c l = hours_of df p c l"
  using groupby_sum_select[of "\<lambda>(p', c', l', pr'). p' = p \<and> c' = c \<and> l' = l" df]
  by (simp add: hours_of_def row_key_def)


lemma hours_of_append: "hours_of (xs @ ys) p c l = hours_of xs p c l + hours_of ys p c l"
  by (simp add: hours_of_def)


lemma hours_of_concat: "hours_of (concat (map F xs)) p c l = (\<Sum>x\<leftarrow>xs. hours_of (F x) p c l)"
  by (induction xs) (simp_all add: hours_of_append, simp add: hours_of_def)


lemma distinct_index:
  "distinct (Periods demand)" "distinct (Categories demand)" "distinct (Products demand)"
  by (simp_all add: Periods_def Categories_def Products_def)


lemma hours_of_result_entry:
  "hours_of (result_entry production_rate (\<lambda>k. Some (X k)) p' c' l' pr) p c l =
     (if p' = p \<and> c' = c \<and> l' = l \<and> 0 < X (p, c, l, pr) then X (p, c, l, pr) else 0)"
  by (auto simp: hours_of_def result_entry_def)

lemma sum_list_if_const:
  "(\<Sum>x\<leftarrow>xs. if P then f x else (0::real)) = (if P then (\<Sum>x\<leftarrow>xs. f x) else 0)"
  by simp


lemma hours_of_results_df:
  assumes "distinct Ps" "distinct Cs"
  shows "hours_of (results_df Ps Cs Ls Prods production_rate (\<lambda>k. Some (X k))) p c l =
     (if p \<in> set Ps \<and> c \<in> set Cs
      then (\<Sum>l'\<leftarrow>Ls. if l' = l
                      then (\<Sum>pr\<leftarrow>Prods. if 0 < X (p, c, l, pr) then X (p, c, l, pr) else 0)
                      else 0)
      else 0)"
proof -
  let ?g = "\<Sum>pr\<leftarrow>Prods. if 0 < X (p, c, l, pr) then X (p, c, l, pr) else 0"
  have inner: "(\<Sum>pr\<leftarrow>Prods. hours_of (result_entry production_rate (\<lambda>k. Some (X k)) p' c' l' pr) p c l)
      = (if p' = p \<and> c' = c \<and> l' = l then ?g else 0)" for p' c' l'
  proof -
    have "(\<Sum>pr\<leftarrow>Prods. hours_of (result_entry production_rate (\<lambda>k. Some (X k)) p' c' l' pr) p c l)
        = (\<Sum>pr\<leftarrow>Prods. if p' = p \<and> c' = c \<and> l' = l
                          then (if 0 < X (p, c, l, pr) then X (p, c, l, pr) else 0) else 0)"
      by (intro arg_cong[where f = sum_list] map_cong refl) (simp add: hours_of_result_entry)
    then show ?thesis by (simp only: sum_list_if_const)
  qed
  have lines: "(\<Sum>l'\<leftarrow>Ls. \<Sum>pr\<leftarrow>Prods.
                  hours_of (result_entry production_rate (\<lambda>k. Some (X k)) p' c' l' pr) p c l)
      = (if p' = p \<and> c' = c then (\<Sum>l'\<leftarrow>Ls. if l' = l then ?g else 0) else 0)" for p' c'
    by (cases "p' = p"; cases "c' = c") (simp_all add: inner)
  have cats: "(\<Sum>c'\<leftarrow>Cs. \<Sum>l'\<leftarrow>Ls. \<Sum>pr\<leftarrow>Prods.
                  hours_of (result_entry production_rate (\<lambda>k. Some (X k)) p' c' l' pr) p c l)
      = (if p' = p \<and> c \<in> set Cs then (\<Sum>l'\<leftarrow>Ls. if l' = l then ?g else 0) else 0)" for p'
    using sum_list_select[OF assms(2), of c
        "\<lambda>c'. if p' = p \<and> c' = c then (\<Sum>l'\<leftarrow>Ls. if l' = l then ?g else 0) else 0"]
    by (simp only: lines) simp
  have "hours_of (results_df Ps Cs Ls Prods production_rate (\<lambda>k. Some (X k))) p c l
      = (\<Sum>p'\<leftarrow>Ps. \<Sum>c'\<leftarrow>Cs. \<Sum>l'\<leftarrow>Ls. \<Sum>pr\<leftarrow>Prods.
            hours_of (result_entry production_rate (\<lambda>k. Some (X k)) p' c' l' pr) p c l)"
    by (simp only: results_df_def hours_of_concat)
  also have "\<dots> = (\<Sum>p'\<leftarrow>Ps. if p' = p \<and> c \<in> set Cs
                              then (\<Sum>l'\<leftarrow>Ls. if l' = l then ?g else 0) else 0)"
    by (simp only: cats)
  also have "\<dots> = (if p \<in> set Ps \<and> c \<in> set Cs
                   then (\<Sum>l'\<leftarrow>Ls. if l' = l then ?g else 0) else 0)"
    using sum_list_select[OF assms(1), of p
        "\<lambda>p'. if p' = p \<and> c \<in> set Cs then (\<Sum>l'\<leftarrow>Ls. if l' = l then ?g else 0) else 0"]
    by simp
  finally show ?thesis .
qed





lemma sum_list_if_filter:
  "(\<Sum>x\<leftarrow>xs. if P x then f x else (0::real)) = (\<Sum>x\<leftarrow>filter P xs. f x)"
  by (induction xs) simp_all









section \<open>Coverage of the demand\<close>







section \<open>The capacity ceiling\<close>

lemma sum_list_strict_at:
  assumes "\<And>x. x \<in> set xs \<Longrightarrow> f x \<le> g x" "a \<in> set xs" "f a < (g a :: real)"
  shows "sum_list (map f xs) < sum_list (map g xs)"
  using assms
proof (induction xs)
  case Nil
  then show ?case by simp
next
  case (Cons x xs)
  have le: "sum_list (map f xs) \<le> sum_list (map g xs)"
    by (rule sum_list_mono) (simp add: Cons.prems(1))
  show ?case
  proof (cases "x = a")
    case True
    with Cons.prems(3) le show ?thesis by simp
  next
    case False
    with Cons.prems have "a \<in> set xs" by simp
    with Cons.IH Cons.prems have "sum_list (map f xs) < sum_list (map g xs)" by simp
    moreover have "f x \<le> g x" by (simp add: Cons.prems(1))
    ultimately show ?thesis by simp
  qed
qed

lemma Objective_strict:
  assumes le: "\<And>k. Y k \<le> X k"
    and idx: "p \<in> set (PERIODS m)" "c \<in> set (CATEGORIES m)" "l \<in> set (LINES m)"
             "pr \<in> set (PRODUCTS m)"
    and lt: "Y (p, c, l, pr) < X (p, c, l, pr)"
  shows "Objective m Y < Objective m X"
proof -
  let ?s4 = "\<lambda>Z p c l. \<Sum>pr\<leftarrow>PRODUCTS m. Z (p, c, l, pr)"
  let ?s3 = "\<lambda>Z p c. \<Sum>l\<leftarrow>LINES m. ?s4 Z p c l"
  let ?s2 = "\<lambda>Z p. \<Sum>c\<leftarrow>CATEGORIES m. ?s3 Z p c"
  have le4: "?s4 Y p' c' l' \<le> ?s4 X p' c' l'" for p' c' l'
    by (rule sum_list_mono) (simp add: le)
  have le3: "?s3 Y p' c' \<le> ?s3 X p' c'" for p' c'
    by (rule sum_list_mono) (simp add: le4)
  have le2: "?s2 Y p' \<le> ?s2 X p'" for p'
    by (rule sum_list_mono) (simp add: le3)
  have lt4: "?s4 Y p c l < ?s4 X p c l"
    by (rule sum_list_strict_at[where a = pr]) (simp_all add: le idx lt)
  have lt3: "?s3 Y p c < ?s3 X p c"
    by (rule sum_list_strict_at[where a = l]) (simp_all add: le4 idx lt4)
  have lt2: "?s2 Y p < ?s2 X p"
    by (rule sum_list_strict_at[where a = c]) (simp_all add: le3 idx lt3)
  show ?thesis
    unfolding Objective_def
    by (rule sum_list_strict_at[where a = p]) (simp_all add: le2 idx lt2)
qed

lemma optimal_zero_without_rate:
  assumes opt: "optimal m X"
    and idx: "p \<in> set (PERIODS m)" "c \<in> set (CATEGORIES m)" "l \<in> set (LINES m)"
             "pr \<in> set (PRODUCTS m)"
    and norate: "(p, c, l, pr) \<notin> keys (lp_rate m)"
  shows "X (p, c, l, pr) = 0"
proof (rule ccontr)
  assume nz: "X (p, c, l, pr) \<noteq> 0"
  let ?k = "(p, c, l, pr)"
  let ?Y = "X(?k := 0)"
  from opt have feas: "feasible m X" by (simp add: optimal_def)
  with idx have "0 \<le> X ?k" by (simp add: feasible_def)
  with nz have pos: "0 < X ?k" by simp
  have r0: "dict_get (lp_rate m) ?k 0 = 0"
    using norate by (simp add: dict_get_absent)
  have dem: "demand_rule m ?Y p' c' pr'" if "demand_rule m X p' c' pr'" for p' c' pr'
  proof -
    have "(\<Sum>l'\<leftarrow>LINES m. ?Y (p', c', l', pr') * dict_get (lp_rate m) (p', c', l', pr') 0)
        = (\<Sum>l'\<leftarrow>LINES m. X (p', c', l', pr') * dict_get (lp_rate m) (p', c', l', pr') 0)"
      by (intro arg_cong[where f = sum_list] map_cong refl) (use r0 in auto)
    with that show ?thesis by (simp add: demand_rule_def)
  qed
  have cap: "capacity_rule m ?Y p' c' l'" if "capacity_rule m X p' c' l'" for p' c' l'
  proof -
    have "(\<Sum>pr'\<leftarrow>filter (\<lambda>pr'. (p', c', l', pr') \<in> keys (lp_rate m)) (PRODUCTS m).
              ?Y (p', c', l', pr'))
        = (\<Sum>pr'\<leftarrow>filter (\<lambda>pr'. (p', c', l', pr') \<in> keys (lp_rate m)) (PRODUCTS m).
              X (p', c', l', pr'))"
      by (intro arg_cong[where f = sum_list] map_cong refl) (use norate in auto)
    with that show ?thesis by (simp add: capacity_rule_def)
  qed
  from feas have "feasible m ?Y"
    unfolding feasible_def using dem cap by auto
  with opt have "Objective m X \<le> Objective m ?Y" by (simp add: optimal_def)
  moreover have "Objective m ?Y < Objective m X"
    by (rule Objective_strict[OF _ idx]) (use pos in auto)
  ultimately show False by simp
qed

lemma hours_of_non_fallback_rows:
  assumes "l \<noteq> fallback_name"
  shows "hours_of (non_fallback_rows df) p c l = hours_of df p c l"
proof -
  have "filter (\<lambda>r. Period r = p \<and> Category r = c \<and> Line r = l) (non_fallback_rows df)
      = filter (\<lambda>r. Period r = p \<and> Category r = c \<and> Line r = l) df"
    unfolding non_fallback_rows_def filter_filter
    by (rule filter_cong) (use assms in auto)
  then show ?thesis by (simp add: hours_of_def)
qed

lemma hours_of_results_df_adjusted:
  assumes "l \<noteq> fallback_name"
  shows "hours_of (results_df_adjusted Ls production_rate df) p c l
       = hours_of df p c l + hours_of (adjusted_rows Ls production_rate df) p c l"
  by (simp add: results_df_adjusted_def hours_of_groupby_sum hours_of_append
        hours_of_non_fallback_rows[OF assms])

lemma sum_list_Lines_select:
  assumes "l \<noteq> fictitious_line"
  shows "(\<Sum>l'\<leftarrow>Lines line_capacity. if l' = l then g else (0::real))
       = (if l \<in> set (Lines line_capacity) then g else 0)"
proof -
  let ?xs = "sort (remdups (map (\<lambda>((p, c, l), h). l) line_capacity))"
  have "(\<Sum>l'\<leftarrow>?xs. if l' = l then g else 0) = (if l \<in> set ?xs then g else 0)"
    using sum_list_select[of ?xs l "\<lambda>l'. if l' = l then g else 0"] by simp
  with assms show ?thesis by (auto simp: Lines_def)
qed

lemma capacity_key_in_Lines:
  assumes "map_of line_capacity (p, c, l) = Some h"
  shows "l \<in> set (Lines line_capacity)"
proof -
  from assms have "((p, c, l), h) \<in> set line_capacity" by (rule map_of_SomeD)
  then show ?thesis by (force simp: Lines_def)
qed

text \<open>
  C2, as the code has it. Let the solver return an optimal assignment, and let
  \<open>(p, c, l)\<close> be a key of a real line with a stated capacity that is not negative.
  The hours of the final allocation table for the key, less the hours that the
  redistribution added to the key, are at most the stated capacity. So the
  capacity bounds the final hours of every key that received no redistributed hours;
  the redistribution itself does not look at the capacity.
\<close>

theorem capacity_respected_before_redistribution:
  assumes "solve_production_problem demand line_capacity production_rate
             (Returns (\<lambda>k. Some (X k))) = Inr (adj, util, raw)"
    and "optimal (build_model demand line_capacity production_rate) X"
    and "map_of line_capacity (p, c, l) = Some h"
    and "l \<noteq> fallback_name"
    and "hours_le 0 h"
  shows "hours_le (hours_of adj p c l
                   - hours_of (adjusted_rows (Lines line_capacity)
                                 (augment_rate demand production_rate) raw) p c l) h"
proof -
  let ?rate = "augment_rate demand production_rate"
  let ?Ls = "Lines line_capacity"
  let ?m = "build_model demand line_capacity production_rate"
  let ?g = "\<Sum>pr\<leftarrow>Products demand. if 0 < X (p, c, l, pr) then X (p, c, l, pr) else 0"
  from assms(1) have raw: "raw = results_df (Periods demand) (Categories demand) ?Ls
                                   (Products demand) ?rate (\<lambda>k. Some (X k))"
    and adj: "adj = results_df_adjusted ?Ls ?rate raw"
    by (auto simp: solve_production_problem_def Let_def)
  from assms(4) have lf: "l \<noteq> fictitious_line" by (simp add: names_agree)
  have lin: "l \<in> set ?Ls" by (rule capacity_key_in_Lines[OF assms(3)])
  from assms(2) have feas: "feasible ?m X" by (simp add: optimal_def)
  have "hours_of adj p c l - hours_of (adjusted_rows ?Ls ?rate raw) p c l = hours_of raw p c l"
    unfolding adj by (simp add: hours_of_results_df_adjusted[OF assms(4)])
  also have "\<dots> = (if p \<in> set (Periods demand) \<and> c \<in> set (Categories demand) then ?g else 0)"
    unfolding raw
    by (simp add: hours_of_results_df distinct_index sum_list_Lines_select[OF lf] lin)
  finally have eq: "hours_of adj p c l - hours_of (adjusted_rows ?Ls ?rate raw) p c l
      = (if p \<in> set (Periods demand) \<and> c \<in> set (Categories demand) then ?g else 0)" .
  show ?thesis
  proof (cases "p \<in> set (Periods demand) \<and> c \<in> set (Categories demand)")
    case False
    with eq assms(5) show ?thesis by auto
  next
    case True
    have X_eq: "(if 0 < X (p, c, l, pr) then X (p, c, l, pr) else 0)
        = (if (p, c, l, pr) \<in> keys ?rate then X (p, c, l, pr) else 0)"
      if "pr \<in> set (Products demand)" for pr
    proof (cases "(p, c, l, pr) \<in> keys ?rate")
      case True
      have "0 \<le> X (p, c, l, pr)"
        using feas \<open>p \<in> set (Periods demand) \<and> c \<in> set (Categories demand)\<close> lin that
        by (simp add: feasible_def build_model_def)
      with True show ?thesis by auto
    next
      case False
      have "X (p, c, l, pr) = 0"
        by (rule optimal_zero_without_rate[OF assms(2)])
           (use \<open>p \<in> set (Periods demand) \<and> c \<in> set (Categories demand)\<close> lin that False
            in \<open>simp_all add: build_model_def\<close>)
      then show ?thesis by simp
    qed
    have "?g = (\<Sum>pr\<leftarrow>Products demand. if (p, c, l, pr) \<in> keys ?rate then X (p, c, l, pr) else 0)"
      by (intro arg_cong[where f = sum_list] map_cong refl) (rule X_eq)
    also have "\<dots> = (\<Sum>pr\<leftarrow>filter (\<lambda>pr. (p, c, l, pr) \<in> keys ?rate) (Products demand).
                       X (p, c, l, pr))"
      by (simp only: sum_list_if_filter)
    finally have g: "?g = (\<Sum>pr\<leftarrow>filter (\<lambda>pr. (p, c, l, pr) \<in> keys ?rate) (Products demand).
                       X (p, c, l, pr))" .
    have "capacity_rule ?m X p c l"
      using feas True lin by (simp add: feasible_def build_model_def)
    moreover have "dict_get (augment_capacity demand line_capacity) (p, c, l) (Finite 0) = h"
      using lf assms(3) by (simp add: dict_get_def map_of_augment_capacity)
    ultimately have "hours_le ?g h"
      by (simp add: capacity_rule_def build_model_def g)
    with eq True show ?thesis by simp
  qed
qed

theorem capacity_respected_before_redistribution_witness:
  "hours_of [\<lparr>Period = ''P1'', Category = ''Choc'', Line = ''L1'', Product = ''A'', Hours = 20,
               Kg_Produced = 100\<rparr>] ''P1'' ''Choc'' ''L1'' = 20 \<and>
   hours_of (adjusted_rows (Lines capacity_a) (augment_rate demand_a rate_a)
      [\<lparr>Period = ''P1'', Category = ''Choc'', Line = ''L1'', Product = ''A'', Hours = 10,
             Kg_Produced = 50\<rparr>,
       \<lparr>Period = ''P1'', Category = ''Choc'', Line = ''Fallback_Line'', Product = ''A'',
             Hours = 5000, Kg_Produced = 50\<rparr>]) ''P1'' ''Choc'' ''L1'' = 10 \<and>
   hours_le (20 - 10) (Finite 10)"
proof -
  have cap: "map_of capacity_a (''P1'', ''Choc'', ''L1'') = Some (Finite 10)"
    by (simp add: capacity_a_def)
  have h1: "hours_of [\<lparr>Period = ''P1'', Category = ''Choc'', Line = ''L1'', Product = ''A'',
               Hours = 20, Kg_Produced = 100\<rparr>] ''P1'' ''Choc'' ''L1'' = 20"
    by (simp add: hours_of_def)
  have h2: "hours_of (adjusted_rows (Lines capacity_a) (augment_rate demand_a rate_a)
      [\<lparr>Period = ''P1'', Category = ''Choc'', Line = ''L1'', Product = ''A'', Hours = 10,
             Kg_Produced = 50\<rparr>,
       \<lparr>Period = ''P1'', Category = ''Choc'', Line = ''Fallback_Line'', Product = ''A'',
             Hours = 5000, Kg_Produced = 50\<rparr>]) ''P1'' ''Choc'' ''L1'' = 10"
    by code_simp
  from capacity_respected_before_redistribution[OF solve_a optimal_a cap] h1 h2
  show ?thesis by (simp add: fallback_name_def)
qed

text \<open>
  In the scenario the final table reports 20 hours on \<open>L1\<close>, whose stated capacity is
  10 hours.
\<close>

theorem redistribution_exceeds_capacity:
  "optimal (build_model demand_a capacity_a rate_a) X_a \<and>
   map_of capacity_a (''P1'', ''Choc'', ''L1'') = Some (Finite 10) \<and>
   hours_of (results_df_adjusted (Lines capacity_a) (augment_rate demand_a rate_a)
      (results_df (Periods demand_a) (Categories demand_a) (Lines capacity_a) (Products demand_a)
         (augment_rate demand_a rate_a) (\<lambda>k. Some (X_a k)))) ''P1'' ''Choc'' ''L1'' = 20"
proof -
  have "hours_of (results_df_adjusted (Lines capacity_a) (augment_rate demand_a rate_a)
      (results_df (Periods demand_a) (Categories demand_a) (Lines capacity_a) (Products demand_a)
         (augment_rate demand_a rate_a) (\<lambda>k. Some (X_a k)))) ''P1'' ''Choc'' ''L1'' = 20"
    by code_simp
  with optimal_a show ?thesis by (simp add: capacity_a_def)
qed

end
